theory Spec2Isabelle
  imports Complex_Main
begin

section \<open>Strings as Python uses them\<close>

text \<open>
  Strings are lists of characters, a character being a code point below 256 (ASCII
  and the Latin-1 supplement). On such text \<^verbatim>\<open>str.lower()\<close> maps the letters A to Z and
  the code points C0 to DE other than D7 to the code point 32 above and leaves every
  other character alone; the tables below list the two ranges. Text with a code point
  from 256 on has no value in this type.
\<close>

definition upper_case_letters :: string where
  "upper_case_letters =
     ''ABCDEFGHIJKLMNOPQRSTUVWXYZ'' @
     [CHR 0xC0, CHR 0xC1, CHR 0xC2, CHR 0xC3, CHR 0xC4, CHR 0xC5, CHR 0xC6,
      CHR 0xC7, CHR 0xC8, CHR 0xC9, CHR 0xCA, CHR 0xCB, CHR 0xCC, CHR 0xCD,
      CHR 0xCE, CHR 0xCF, CHR 0xD0, CHR 0xD1, CHR 0xD2, CHR 0xD3, CHR 0xD4,
      CHR 0xD5, CHR 0xD6, CHR 0xD8, CHR 0xD9, CHR 0xDA, CHR 0xDB, CHR 0xDC,
      CHR 0xDD, CHR 0xDE]"

definition lower_case_letters :: string where
  "lower_case_letters =
     ''abcdefghijklmnopqrstuvwxyz'' @
     [CHR 0xE0, CHR 0xE1, CHR 0xE2, CHR 0xE3, CHR 0xE4, CHR 0xE5, CHR 0xE6,
      CHR 0xE7, CHR 0xE8, CHR 0xE9, CHR 0xEA, CHR 0xEB, CHR 0xEC, CHR 0xED,
      CHR 0xEE, CHR 0xEF, CHR 0xF0, CHR 0xF1, CHR 0xF2, CHR 0xF3, CHR 0xF4,
      CHR 0xF5, CHR 0xF6, CHR 0xF8, CHR 0xF9, CHR 0xFA, CHR 0xFB, CHR 0xFC,
      CHR 0xFD, CHR 0xFE]"

definition lower_char :: "char \<Rightarrow> char" where
  "lower_char c =
     (case map_of (zip upper_case_letters lower_case_letters) c of
        None \<Rightarrow> c
      | Some d \<Rightarrow> d)"

definition lower :: "string \<Rightarrow> string" where
  "lower s = map lower_char s"

text \<open>\<^verbatim>\<open>s.startswith(p)\<close>, \<^verbatim>\<open>s.endswith(p)\<close> and the substring test \<^verbatim>\<open>sub in s\<close>.\<close>

fun startswith :: "string \<Rightarrow> string \<Rightarrow> bool" where
  "startswith s [] = True"
| "startswith [] (p # ps) = False"
| "startswith (c # cs) (p # ps) = (c = p \<and> startswith cs ps)"

definition endswith :: "string \<Rightarrow> string \<Rightarrow> bool" where
  "endswith s p = startswith (rev s) (rev p)"

fun contains :: "string \<Rightarrow> string \<Rightarrow> bool" where
  "contains sub [] = (sub = [])"
| "contains sub (c # cs) = (startswith (c # cs) sub \<or> contains sub cs)"

text \<open>
  \<^verbatim>\<open>s.strip()\<close> removes the white space at both ends (the twelve code points below
  256 for which \<^verbatim>\<open>str.isspace()\<close> holds), and the slice \<^verbatim>\<open>xs[-n:]\<close> is
  the last \<open>n\<close> elements for a positive \<open>n\<close>, the whole list for \<open>n = 0\<close>, and the list
  without its first \<open>-n\<close> elements for a negative \<open>n\<close>.
\<close>

definition is_space :: "char \<Rightarrow> bool" where
  "is_space c =
     (c \<in> {CHR '' '', CHR 0x09, CHR 0x0A, CHR 0x0B, CHR 0x0C, CHR 0x0D,
            CHR 0x1C, CHR 0x1D, CHR 0x1E, CHR 0x1F, CHR 0x85, CHR 0xA0})"

definition strip :: "string \<Rightarrow> string" where
  "strip s = rev (dropWhile is_space (rev (dropWhile is_space s)))"

definition slice_last :: "int \<Rightarrow> 'a list \<Rightarrow> 'a list" where
  "slice_last n xs =
     (if n > 0 then drop (length xs - nat n) xs
      else if n = 0 then xs
      else drop (nat (- n)) xs)"

section \<open>Topic validation and permissions (core/topic\_validator.py)\<close>

datatype TopicType = GENERAL | TEAM | PROJECT | PRIVATE | SYSTEM | RANDOM

datatype PermissionLevel = READ | WRITE | ADMIN | OWNER

record TopicPermission =
  perm_agent_id :: string
  permission_level :: PermissionLevel
  granted_by :: string
  granted_at :: string

text \<open>
  The error messages of \<^verbatim>\<open>validate_topic_name\<close>, one constructor per message, in the
  order the source appends them: too short (with the minimum), too long (with the
  maximum), reserved (with the name), invalid characters, consecutive hyphens,
  leading or trailing hyphen, type pattern mismatch (with the type).
\<close>

datatype name_error =
    TooShort nat
  | TooLong nat
  | ReservedName string
  | InvalidCharacters
  | ConsecutiveHyphens
  | EdgeHyphen
  | PatternMismatch TopicType

record TopicValidationResult =
  is_valid :: bool
  errors :: "name_error list"
  warnings :: "string list"
  suggestions :: "string list"

text \<open>The attributes \<^verbatim>\<open>__init__\<close> sets and no method changes.\<close>

definition reserved_topics :: "string set" where
  "reserved_topics = {''system'', ''admin'', ''config'', ''logs'', ''metrics'', ''health''}"

definition max_topic_length :: nat where
  "max_topic_length = 50"

definition min_topic_length :: nat where
  "min_topic_length = 3"

text \<open>The character class \<^verbatim>\<open>[a-z0-9-]\<close>.\<close>

definition name_char :: "char \<Rightarrow> bool" where
  "name_char c = (c \<in> set ''abcdefghijklmnopqrstuvwxyz0123456789-'')"

text \<open>
  \<^verbatim>\<open>re.match(r"^[a-z0-9-]+$", s)\<close>: one or more characters of the class up to the end of
  the string, where Python's \<^verbatim>\<open>$\<close> also matches just before a final newline.
\<close>

definition strip_final_newline :: "string \<Rightarrow> string" where
  "strip_final_newline s = (if s \<noteq> [] \<and> last s = CHR 0x0A then butlast s else s)"

definition match_name_chars :: "string \<Rightarrow> bool" where
  "match_name_chars s = (let t = strip_final_newline s in t \<noteq> [] \<and> list_all name_char t)"

text \<open>
  \<^verbatim>\<open>topic_patterns\<close>: \<^verbatim>\<open>^team-[a-z0-9-]+$\<close>, \<^verbatim>\<open>^project-[a-z0-9-]+$\<close>,
  \<^verbatim>\<open>^private-[a-z0-9-]+$\<close>, \<^verbatim>\<open>^[a-z0-9-]+$\<close> and \<^verbatim>\<open>^random$\<close>; the dictionary has no
  entry for the system type. \<open>None\<close> is the missing key.
\<close>

definition match_prefixed :: "string \<Rightarrow> string \<Rightarrow> bool" where
  "match_prefixed p s = (startswith s p \<and> match_name_chars (drop (length p) s))"

fun topic_patterns :: "TopicType \<Rightarrow> (string \<Rightarrow> bool) option" where
  "topic_patterns TEAM = Some (match_prefixed ''team-'')"
| "topic_patterns PROJECT = Some (match_prefixed ''project-'')"
| "topic_patterns PRIVATE = Some (match_prefixed ''private-'')"
| "topic_patterns GENERAL = Some match_name_chars"
| "topic_patterns RANDOM = Some (\<lambda>s. strip_final_newline s = ''random'')"
| "topic_patterns SYSTEM = None"

text \<open>
  The suggestion: \<^verbatim>\<open>re.sub(r"[^a-z0-9-]", "-", name.lower())\<close>, then
  \<^verbatim>\<open>re.sub(r"-+", "-", cleaned)\<close>, then \<^verbatim>\<open>cleaned.strip("-")\<close>.
\<close>

definition replace_invalid :: "string \<Rightarrow> string" where
  "replace_invalid s = map (\<lambda>c. if name_char c then c else CHR ''-'') s"

fun collapse_hyphens :: "string \<Rightarrow> string" where
  "collapse_hyphens (a # b # cs) =
     (if a = CHR ''-'' \<and> b = CHR ''-'' then collapse_hyphens (b # cs)
      else a # collapse_hyphens (b # cs))"
| "collapse_hyphens cs = cs"

definition strip_hyphens :: "string \<Rightarrow> string" where
  "strip_hyphens s =
     rev (dropWhile (\<lambda>c. c = CHR ''-'') (rev (dropWhile (\<lambda>c. c = CHR ''-'') s)))"

definition cleaned_name :: "string \<Rightarrow> string" where
  "cleaned_name s = strip_hyphens (collapse_hyphens (replace_invalid (lower s)))"

text \<open>\<^verbatim>\<open>_find_similar_topics\<close> returns the empty list.\<close>

definition find_similar_topics :: "string \<Rightarrow> string list" where
  "find_similar_topics topic_name = []"

text \<open>
  \<^verbatim>\<open>validate_topic_name(topic_name, topic_type=None)\<close>. Each check appends to
  \<^verbatim>\<open>errors\<close>; the length checks are an \<^verbatim>\<open>if\<close>/\<^verbatim>\<open>elif\<close>, the others independent.
\<close>

definition name_errors :: "string \<Rightarrow> TopicType option \<Rightarrow> name_error list" where
  "name_errors topic_name topic_type =
     (if length topic_name < min_topic_length then [TooShort min_topic_length]
      else if length topic_name > max_topic_length then [TooLong max_topic_length]
      else [])
     @ (if lower topic_name \<in> reserved_topics then [ReservedName topic_name] else [])
     @ (if \<not> match_name_chars topic_name then [InvalidCharacters] else [])
     @ (if contains ''--'' topic_name then [ConsecutiveHyphens] else [])
     @ (if startswith topic_name ''-'' \<or> endswith topic_name ''-'' then [EdgeHyphen] else [])
     @ (case topic_type of
          None \<Rightarrow> []
        | Some ty \<Rightarrow>
            (case topic_patterns ty of
               None \<Rightarrow> []
             | Some pattern \<Rightarrow> if \<not> pattern topic_name then [PatternMismatch ty] else []))"

definition validate_topic_name :: "string \<Rightarrow> TopicType option \<Rightarrow> TopicValidationResult" where
  "validate_topic_name topic_name topic_type =
     (let errs = name_errors topic_name topic_type;
          cleaned = cleaned_name topic_name;
          suggs = (if errs \<noteq> [] \<and> cleaned \<noteq> [] \<and> length cleaned \<ge> min_topic_length
                   then [''Consider using: '' @ cleaned] else []);
          similar = find_similar_topics topic_name;
          warns = (if similar \<noteq> [] then [''Similar topics exist''] else [])
      in \<lparr>is_valid = (length errs = 0), errors = errs, warnings = warns, suggestions = suggs\<rparr>)"

text \<open>
  The permission table \<^verbatim>\<open>topic_permissions\<close>: topic to the list of its permission
  records. \<^verbatim>\<open>grant_permission\<close> updates the first record of the agent in place, or
  appends a new one; it returns true on both paths.
\<close>

type_synonym permissions = "string \<rightharpoonup> TopicPermission list"

fun update_permission ::
  "TopicPermission list \<Rightarrow> string \<Rightarrow> PermissionLevel \<Rightarrow> string \<Rightarrow> TopicPermission list option" where
  "update_permission [] agent lvl grantor = None"
| "update_permission (p # ps) agent lvl grantor =
     (if perm_agent_id p = agent
      then Some (p\<lparr>permission_level := lvl, granted_by := grantor\<rparr> # ps)
      else map_option (\<lambda>ps'. p # ps') (update_permission ps agent lvl grantor))"

definition grant_permission ::
  "permissions \<Rightarrow> string \<Rightarrow> string \<Rightarrow> PermissionLevel \<Rightarrow> string \<Rightarrow> bool \<times> permissions" where
  "grant_permission tp topic agent lvl grantor =
     (let perms = (case tp topic of None \<Rightarrow> [] | Some ps \<Rightarrow> ps)
      in case update_permission perms agent lvl grantor of
           Some perms' \<Rightarrow> (True, tp(topic \<mapsto> perms'))
         | None \<Rightarrow>
             (True, tp(topic \<mapsto> perms @
                [\<lparr>perm_agent_id = agent, permission_level = lvl,
                  granted_by = grantor, granted_at = ''now''\<rparr>])))"

definition revoke_permission :: "permissions \<Rightarrow> string \<Rightarrow> string \<Rightarrow> bool \<times> permissions" where
  "revoke_permission tp topic agent =
     (case tp topic of
        None \<Rightarrow> (False, tp)
      | Some perms \<Rightarrow>
          (let perms' = filter (\<lambda>p. perm_agent_id p \<noteq> agent) perms
           in (length perms' < length perms, tp(topic \<mapsto> perms'))))"

text \<open>\<^verbatim>\<open>level_hierarchy\<close> and \<^verbatim>\<open>_permission_level_sufficient\<close>.\<close>

fun level_hierarchy :: "PermissionLevel \<Rightarrow> nat" where
  "level_hierarchy READ = 1"
| "level_hierarchy WRITE = 2"
| "level_hierarchy ADMIN = 3"
| "level_hierarchy OWNER = 4"

definition permission_level_sufficient :: "PermissionLevel \<Rightarrow> PermissionLevel \<Rightarrow> bool" where
  "permission_level_sufficient current_level required_level =
     (level_hierarchy current_level \<ge> level_hierarchy required_level)"

text \<open>
  \<^verbatim>\<open>check_permission\<close>: false when the topic has no entry; otherwise the first record
  of the agent decides, and false when the loop finds none.
\<close>

fun check_records :: "TopicPermission list \<Rightarrow> string \<Rightarrow> PermissionLevel \<Rightarrow> bool" where
  "check_records [] agent required = False"
| "check_records (p # ps) agent required =
     (if perm_agent_id p = agent
      then permission_level_sufficient (permission_level p) required
      else check_records ps agent required)"

definition check_permission :: "permissions \<Rightarrow> string \<Rightarrow> string \<Rightarrow> PermissionLevel \<Rightarrow> bool" where
  "check_permission tp topic agent required =
     (case tp topic of None \<Rightarrow> False | Some perms \<Rightarrow> check_records perms agent required)"

section \<open>Messages (schemas/message.py)\<close>

datatype MessageType = TEXT | TASK | RESULT | QUERY | RESPONSE | NOTIFICATION | ERROR | HEARTBEAT

datatype MessagePriority = LOW | NORMAL | HIGH | URGENT


fun priority_value :: "MessagePriority \<Rightarrow> string" where
  "priority_value LOW = ''low''"
| "priority_value NORMAL = ''normal''"
| "priority_value HIGH = ''high''"
| "priority_value URGENT = ''urgent''"

text \<open>
  Values of the \<^verbatim>\<open>Dict[str, Any]\<close> metadata, with Python's equality: a boolean equals
  the integer 0 or 1 it stands for.
\<close>

datatype pyvalue = PStr string | PInt int | PBool bool | PNone

fun py_eq :: "pyvalue \<Rightarrow> pyvalue \<Rightarrow> bool" where
  "py_eq (PBool b) (PInt i) = (i = (if b then 1 else 0))"
| "py_eq (PInt i) (PBool b) = (i = (if b then 1 else 0))"
| "py_eq v w = (v = w)"

text \<open>
  An exception object (a subclass of \<^verbatim>\<open>Exception\<close>): the name of its class and its
  message text. A call that may raise returns \<open>Inl\<close> of the exception.
\<close>

datatype py_exception = PyException (exc_type: string) (exc_message: string)

text \<open>
  A \<^verbatim>\<open>datetime\<close> is the number of microseconds since the epoch, a \<^verbatim>\<open>UUID\<close> a
  natural number.
\<close>

type_synonym datetime = int

type_synonym uuid = nat

record AgentMessage =
  msg_id :: uuid
  timestamp :: datetime
  sender_id :: string
  sender_name :: string
  sender_role :: string
  message_type :: MessageType
  priority :: MessagePriority
  content :: string
  topic :: string
  reply_to :: "string option"
  metadata :: "string \<rightharpoonup> pyvalue"
  tags :: "string list"
  correlation_id :: "uuid option"
  requires_response :: bool
  response_timeout :: "int option"
  ttl :: "int option"
  retry_count :: int
  max_retries :: int

text \<open>
  \<^verbatim>\<open>is_expired\<close> reads the clock: \<open>now\<close> is \<^verbatim>\<open>datetime.utcnow()\<close>. The source compares
  the age in seconds, a floating point number, with the time to live; the model compares
  the age in microseconds with a million times the time to live, which is the same
  test while the age is below 2 to the power 32 seconds (beyond that the division may round the
  age to the time to live itself).
\<close>

definition is_expired :: "datetime \<Rightarrow> AgentMessage \<Rightarrow> bool" where
  "is_expired now m =
     (case ttl m of None \<Rightarrow> False | Some life \<Rightarrow> now - timestamp m > life * 1000000)"

definition should_retry :: "datetime \<Rightarrow> AgentMessage \<Rightarrow> bool" where
  "should_retry now m = (retry_count m < max_retries m \<and> \<not> is_expired now m)"

definition increment_retry :: "AgentMessage \<Rightarrow> AgentMessage" where
  "increment_retry m = m\<lparr>retry_count := retry_count m + 1\<rparr>"

section \<open>Subscriptions (core/subscription\_manager.py)\<close>

datatype SubscriptionType = ALL_MESSAGES | ROLE_BASED | CONTENT_FILTERED | PRIORITY_FILTERED | CUSTOM

record SubscriptionFilter =
  message_types :: "MessageType set option"
  min_priority :: "MessagePriority option"
  content_keywords :: "string list option"
  content_regex :: "string option"
  allowed_senders :: "string set option"
  blocked_senders :: "string set option"
  allowed_roles :: "string set option"
  blocked_roles :: "string set option"
  metadata_filters :: "(string \<times> pyvalue) list option"
  custom_filter :: "(AgentMessage \<Rightarrow> py_exception + bool) option"

text \<open>
  A handler is a callable the manager stores and never calls: an opaque reference.
  The source keeps the last delivery time as the ISO text of the message's timestamp;
  the model keeps the timestamp.
\<close>

type_synonym handler = nat

record TopicSubscription =
  sub_topic :: string
  sub_agent_id :: string
  subscription_type :: SubscriptionType
  filter_criteria :: "SubscriptionFilter option"
  sub_handler :: "handler option"
  active :: bool
  created_at :: "string option"
  message_count :: int
  last_message_at :: "datetime option"

text \<open>
  The regular expression engine is outside the repository:
  \<open>re pattern text\<close> stands for \<^verbatim>\<open>bool(re.search(pattern, text, re.IGNORECASE))\<close>, and is
  \<open>Inl\<close> of the exception when the engine raises (a pattern that does not compile).
\<close>

type_synonym regex_engine = "string \<Rightarrow> string \<Rightarrow> py_exception + bool"

text \<open>The dictionary \<^verbatim>\<open>priority_order\<close>.\<close>

fun priority_order :: "MessagePriority \<Rightarrow> nat" where
  "priority_order LOW = 0"
| "priority_order NORMAL = 1"
| "priority_order HIGH = 2"
| "priority_order URGENT = 3"

text \<open>
  The clauses of \<^verbatim>\<open>_message_matches_filter\<close>, each true when the message passes it. An
  optional field that is \<^verbatim>\<open>None\<close> or empty is falsy in the source and the clause is
  skipped.
\<close>

definition type_clause :: "AgentMessage \<Rightarrow> SubscriptionFilter \<Rightarrow> bool" where
  "type_clause m f =
     (case message_types f of
        None \<Rightarrow> True
      | Some ts \<Rightarrow> \<not> (ts \<noteq> {} \<and> message_type m \<notin> ts))"

definition priority_clause :: "AgentMessage \<Rightarrow> SubscriptionFilter \<Rightarrow> bool" where
  "priority_clause m f =
     (case min_priority f of
        None \<Rightarrow> True
      | Some p \<Rightarrow> \<not> (priority_order (priority m) < priority_order p))"

definition keyword_clause :: "AgentMessage \<Rightarrow> SubscriptionFilter \<Rightarrow> bool" where
  "keyword_clause m f =
     (case content_keywords f of
        None \<Rightarrow> True
      | Some ks \<Rightarrow>
          ks = [] \<or> list_ex (\<lambda>keyword. contains (lower keyword) (lower (content m))) ks)"

definition regex_clause :: "regex_engine \<Rightarrow> AgentMessage \<Rightarrow> SubscriptionFilter \<Rightarrow> py_exception + bool" where
  "regex_clause re m f =
     (case content_regex f of
        None \<Rightarrow> Inr True
      | Some pattern \<Rightarrow> if pattern = [] then Inr True else re pattern (content m))"

definition sender_clause :: "AgentMessage \<Rightarrow> SubscriptionFilter \<Rightarrow> bool" where
  "sender_clause m f =
     ((case allowed_senders f of
         None \<Rightarrow> True
       | Some S \<Rightarrow> \<not> (S \<noteq> {} \<and> sender_id m \<notin> S))
      \<and> (case blocked_senders f of
            None \<Rightarrow> True
          | Some S \<Rightarrow> \<not> (S \<noteq> {} \<and> sender_id m \<in> S)))"

definition role_clause :: "AgentMessage \<Rightarrow> SubscriptionFilter \<Rightarrow> bool" where
  "role_clause m f =
     ((case allowed_roles f of
         None \<Rightarrow> True
       | Some S \<Rightarrow> \<not> (S \<noteq> {} \<and> sender_role m \<notin> S))
      \<and> (case blocked_roles f of
            None \<Rightarrow> True
          | Some S \<Rightarrow> \<not> (S \<noteq> {} \<and> sender_role m \<in> S)))"

text \<open>
  The metadata loop returns false at the first pair whose key is missing from the
  message's metadata or whose value differs.
\<close>

fun metadata_pairs_match :: "AgentMessage \<Rightarrow> (string \<times> pyvalue) list \<Rightarrow> bool" where
  "metadata_pairs_match m [] = True"
| "metadata_pairs_match m ((k, v) # kvs) =
     (case metadata m k of
        None \<Rightarrow> False
      | Some w \<Rightarrow> if \<not> py_eq w v then False else metadata_pairs_match m kvs)"

definition metadata_clause :: "AgentMessage \<Rightarrow> SubscriptionFilter \<Rightarrow> bool" where
  "metadata_clause m f =
     (case metadata_filters f of None \<Rightarrow> True | Some kvs \<Rightarrow> metadata_pairs_match m kvs)"

text \<open>
  The custom filter runs inside \<^verbatim>\<open>try\<close>/\<^verbatim>\<open>except Exception\<close>: an exception gives
  false.
\<close>

definition custom_clause :: "AgentMessage \<Rightarrow> SubscriptionFilter \<Rightarrow> bool" where
  "custom_clause m f =
     (case custom_filter f of
        None \<Rightarrow> True
      | Some predicate \<Rightarrow> (case predicate m of Inl e \<Rightarrow> False | Inr b \<Rightarrow> b))"

text \<open>
  \<^verbatim>\<open>_message_matches_filter\<close>: the clauses in the source's order, each returning false
  as soon as it fails. Only the regular expression clause is outside any \<^verbatim>\<open>try\<close>, so
  an exception of the engine leaves the function.
\<close>

definition message_matches_filter ::
  "regex_engine \<Rightarrow> AgentMessage \<Rightarrow> SubscriptionFilter option \<Rightarrow> py_exception + bool" where
  "message_matches_filter re m fc =
     (case fc of
        None \<Rightarrow> Inr True
      | Some f \<Rightarrow>
          if \<not> type_clause m f then Inr False
          else if \<not> priority_clause m f then Inr False
          else if \<not> keyword_clause m f then Inr False
          else (case regex_clause re m f of
                  Inl e \<Rightarrow> Inl e
                | Inr matched \<Rightarrow>
                    if \<not> matched then Inr False
                    else if \<not> sender_clause m f then Inr False
                    else if \<not> role_clause m f then Inr False
                    else if \<not> metadata_clause m f then Inr False
                    else Inr (custom_clause m f)))"

text \<open>
  The manager. Subscription objects are shared between the per-topic and the per-agent
  lists and are mutated in place, so the lists hold references and \<open>objects\<close> maps a
  reference to the object; \<open>next_ref\<close> is the reference the next new object gets.
\<close>

type_synonym ref = nat

record SubscriptionManager =
  subscriptions :: "string \<rightharpoonup> ref list"
  agent_subscriptions :: "string \<rightharpoonup> ref list"
  message_handlers :: "string \<rightharpoonup> handler"
  objects :: "ref \<Rightarrow> TopicSubscription"
  next_ref :: ref

definition handler_key :: "string \<Rightarrow> string \<Rightarrow> string" where
  "handler_key agent tp = agent @ '':'' @ tp"

definition get_or_empty :: "('k \<rightharpoonup> 'v list) \<Rightarrow> 'k \<Rightarrow> 'v list" where
  "get_or_empty d k = (case d k of None \<Rightarrow> [] | Some xs \<Rightarrow> xs)"

definition new_manager :: "TopicSubscription \<Rightarrow> SubscriptionManager" where
  "new_manager blank =
     \<lparr>subscriptions = Map.empty, agent_subscriptions = Map.empty,
      message_handlers = Map.empty, objects = (\<lambda>r. blank), next_ref = 0\<rparr>"

definition subscribe_agent_to_topic ::
  "SubscriptionManager \<Rightarrow> string \<Rightarrow> string \<Rightarrow> SubscriptionType \<Rightarrow> SubscriptionFilter option
     \<Rightarrow> handler option \<Rightarrow> ref \<times> SubscriptionManager" where
  "subscribe_agent_to_topic mgr agent tp kind fc h =
     (let r = next_ref mgr;
          subscription = \<lparr>sub_topic = tp, sub_agent_id = agent, subscription_type = kind,
                          filter_criteria = fc, sub_handler = h, active = True,
                          created_at = None, message_count = 0, last_message_at = None\<rparr>
      in (r, mgr\<lparr>subscriptions := (subscriptions mgr)(tp \<mapsto> get_or_empty (subscriptions mgr) tp @ [r]),
                 agent_subscriptions :=
                   (agent_subscriptions mgr)(agent \<mapsto> get_or_empty (agent_subscriptions mgr) agent @ [r]),
                 message_handlers :=
                   (case h of
                      None \<Rightarrow> message_handlers mgr
                    | Some callback \<Rightarrow> (message_handlers mgr)(handler_key agent tp \<mapsto> callback)),
                 objects := (objects mgr)(r := subscription),
                 next_ref := Suc r\<rparr>))"

text \<open>
  \<^verbatim>\<open>unsubscribe_agent_from_topic\<close>. \<^verbatim>\<open>removed\<close> becomes true in the branch
  \<^verbatim>\<open>if topic in self.subscriptions\<close>, whatever the list comprehension removes.
\<close>

definition store_or_delete :: "('k \<rightharpoonup> 'v list) \<Rightarrow> 'k \<Rightarrow> 'v list \<Rightarrow> ('k \<rightharpoonup> 'v list)" where
  "store_or_delete d k xs = (if xs = [] then d(k := None) else d(k \<mapsto> xs))"

definition unsubscribe_agent_from_topic ::
  "SubscriptionManager \<Rightarrow> string \<Rightarrow> string \<Rightarrow> bool \<times> SubscriptionManager" where
  "unsubscribe_agent_from_topic mgr agent tp =
     (let obj = objects mgr;
          (removed, subs') =
            (case subscriptions mgr tp of
               None \<Rightarrow> (False, subscriptions mgr)
             | Some rs \<Rightarrow>
                 (True, store_or_delete (subscriptions mgr) tp
                    (filter (\<lambda>r. \<not> (sub_agent_id (obj r) = agent \<and> sub_topic (obj r) = tp)) rs)));
          agent_subs' =
            (case agent_subscriptions mgr agent of
               None \<Rightarrow> agent_subscriptions mgr
             | Some rs \<Rightarrow>
                 store_or_delete (agent_subscriptions mgr) agent
                   (filter (\<lambda>r. sub_topic (obj r) \<noteq> tp) rs));
          handlers' = (message_handlers mgr)(handler_key agent tp := None)
      in (removed, mgr\<lparr>subscriptions := subs', agent_subscriptions := agent_subs',
                       message_handlers := handlers'\<rparr>))"

text \<open>\<^verbatim>\<open>get_topic_subscribers\<close>: the subscription objects of a topic.\<close>

definition get_topic_subscribers :: "SubscriptionManager \<Rightarrow> string \<Rightarrow> TopicSubscription list" where
  "get_topic_subscribers mgr tp = map (objects mgr) (get_or_empty (subscriptions mgr) tp)"

text \<open>
  The loop of \<^verbatim>\<open>route_message\<close> over the references of the topic. It returns the
  matching references, or the exception that left the filter, and the objects as the
  loop left them.
\<close>

fun route_loop ::
  "regex_engine \<Rightarrow> AgentMessage \<Rightarrow> ref list \<Rightarrow> (ref \<Rightarrow> TopicSubscription)
     \<Rightarrow> (py_exception + ref list) \<times> (ref \<Rightarrow> TopicSubscription)" where
  "route_loop re m [] obj = (Inr [], obj)"
| "route_loop re m (r # rs) obj =
     (let subscription = obj r
      in if \<not> active subscription then route_loop re m rs obj
         else if sub_agent_id subscription = sender_id m then route_loop re m rs obj
         else (case message_matches_filter re m (filter_criteria subscription) of
                 Inl e \<Rightarrow> (Inl e, obj)
               | Inr matched \<Rightarrow>
                   if matched
                   then (let obj' = obj(r := subscription
                                 \<lparr>message_count := message_count subscription + 1,
                                  last_message_at := Some (timestamp m)\<rparr>)
                         in case route_loop re m rs obj' of
                              (Inl e, obj'') \<Rightarrow> (Inl e, obj'')
                            | (Inr matching, obj'') \<Rightarrow> (Inr (r # matching), obj''))
                   else route_loop re m rs obj))"

definition route_message ::
  "regex_engine \<Rightarrow> SubscriptionManager \<Rightarrow> AgentMessage
     \<Rightarrow> (py_exception + ref list) \<times> SubscriptionManager" where
  "route_message re mgr m =
     (case subscriptions mgr (topic m) of
        None \<Rightarrow> (Inr [], mgr)
      | Some rs \<Rightarrow>
          (case route_loop re m rs (objects mgr) of
             (result, obj') \<Rightarrow> (result, mgr\<lparr>objects := obj'\<rparr>)))"

subsection \<open>Notions used to state the properties of routing\<close>

text \<open>
  A subscription is delivered to when it is active, belongs to another agent than the
  sender and its filter returns true; \<open>deliver_to\<close> is the update the loop makes to such
  a subscription. The last definitions are the values of the scenario: a filter with
  keywords only, a text message, and a manager with one subscription of agent bob on
  topic ops.
\<close>

definition delivers :: "regex_engine \<Rightarrow> AgentMessage \<Rightarrow> TopicSubscription \<Rightarrow> bool" where
  "delivers re m s \<longleftrightarrow>
     active s \<and> sub_agent_id s \<noteq> sender_id m
     \<and> message_matches_filter re m (filter_criteria s) = Inr True"

definition filter_returns :: "regex_engine \<Rightarrow> AgentMessage \<Rightarrow> TopicSubscription \<Rightarrow> bool" where
  "filter_returns re m s \<longleftrightarrow>
     (active s \<and> sub_agent_id s \<noteq> sender_id m
        \<longrightarrow> \<not> isl (message_matches_filter re m (filter_criteria s)))"

definition deliver_to :: "AgentMessage \<Rightarrow> TopicSubscription \<Rightarrow> TopicSubscription" where
  "deliver_to m s = s\<lparr>message_count := message_count s + 1, last_message_at := Some (timestamp m)\<rparr>"

definition deliver_all ::
  "AgentMessage \<Rightarrow> ref list \<Rightarrow> (ref \<Rightarrow> TopicSubscription) \<Rightarrow> (ref \<Rightarrow> TopicSubscription)" where
  "deliver_all m rs obj = fold (\<lambda>r h. h(r := deliver_to m (h r))) rs obj"

definition keyword_filter :: "string list \<Rightarrow> SubscriptionFilter" where
  "keyword_filter ks =
     \<lparr>message_types = None, min_priority = None, content_keywords = Some ks,
      content_regex = None, allowed_senders = None, blocked_senders = None,
      allowed_roles = None, blocked_roles = None, metadata_filters = None,
      custom_filter = None\<rparr>"

definition text_message :: "string \<Rightarrow> string \<Rightarrow> string \<Rightarrow> AgentMessage" where
  "text_message sender tp body =
     \<lparr>msg_id = 1, timestamp = 1000, sender_id = sender, sender_name = sender,
      sender_role = ''agent'', message_type = TEXT, priority = NORMAL, content = body,
      topic = tp, reply_to = None, metadata = Map.empty, tags = [], correlation_id = None,
      requires_response = False, response_timeout = None, ttl = None, retry_count = 0,
      max_retries = 3\<rparr>"

definition blank_subscription :: TopicSubscription where
  "blank_subscription =
     \<lparr>sub_topic = [], sub_agent_id = [], subscription_type = ALL_MESSAGES,
      filter_criteria = None, sub_handler = None, active = False, created_at = None,
      message_count = 0, last_message_at = None\<rparr>"

definition ops_manager :: SubscriptionManager where
  "ops_manager =
     snd (subscribe_agent_to_topic (new_manager blank_subscription) ''bob'' ''ops''
            CONTENT_FILTERED (Some (keyword_filter [''urgent'', ''important''])) None)"

section \<open>Routing rules (core/message\_router.py)\<close>
















text \<open>
  An engine for the scenarios: it takes the pattern as literal text and never raises.
\<close>

definition literal_engine :: regex_engine where
  "literal_engine pattern text = Inr (contains (lower pattern) (lower text))"

text \<open>
  A predicate that raises on every message, and a filter, a rule and a manager with one
  subscription that use it.
\<close>

definition raising_predicate :: "AgentMessage \<Rightarrow> py_exception + bool" where
  "raising_predicate m = Inl (PyException ''ZeroDivisionError'' ''division by zero'')"

definition raising_filter :: SubscriptionFilter where
  "raising_filter = (keyword_filter [])\<lparr>custom_filter := Some raising_predicate\<rparr>"



text \<open>
  An engine that rejects the pattern \<^verbatim>\<open>(\<close>, as Python's does with \<^verbatim>\<open>re.error\<close>, and takes
  every other pattern as literal text; a filter and a manager whose one subscription
  has that pattern, without and with the raising predicate.
\<close>

definition regex_error :: py_exception where
  "regex_error = PyException ''error'' ''missing ), unterminated subpattern at position 0''"

definition strict_engine :: regex_engine where
  "strict_engine pattern text =
     (if pattern = ''('' then Inl regex_error else literal_engine pattern text)"

definition broken_filter :: SubscriptionFilter where
  "broken_filter = (keyword_filter [])\<lparr>content_regex := Some ''(''\<rparr>"

definition broken_manager :: SubscriptionManager where
  "broken_manager =
     snd (subscribe_agent_to_topic (new_manager blank_subscription) ''bob'' ''ops''
            CONTENT_FILTERED (Some broken_filter) None)"

definition broken_raising_filter :: SubscriptionFilter where
  "broken_raising_filter = raising_filter\<lparr>content_regex := Some ''(''\<rparr>"

definition broken_raising_manager :: SubscriptionManager where
  "broken_raising_manager =
     snd (subscribe_agent_to_topic (new_manager blank_subscription) ''bob'' ''ops''
            CUSTOM (Some broken_raising_filter) None)"

section \<open>Conversation threads (core/conversation\_manager.py)\<close>

text \<open>A \<^verbatim>\<open>timedelta\<close> is a number of microseconds.\<close>

type_synonym timedelta = int

record ConversationThread =
  thread_id :: uuid
  thread_topic :: string
  title :: "string option"
  thread_created_at :: datetime
  last_activity :: datetime
  participants :: "string set"
  thread_message_count :: int
  is_active :: bool
  thread_metadata :: "string \<rightharpoonup> pyvalue"

record ConversationContext =
  ctx_thread_id :: uuid
  ctx_topic :: string
  recent_messages :: "AgentMessage list"
  ctx_participants :: "string set"
  thread_title :: "string option"
  ctx_created_at :: datetime
  ctx_last_activity :: datetime

text \<open>
  The manager's dictionaries. \<^verbatim>\<open>message_threads\<close> is keyed by the text of the message
  id; the model keys it by the id.
\<close>

record ConversationManager =
  max_context_messages :: int
  thread_timeout :: timedelta
  threads :: "uuid \<rightharpoonup> ConversationThread"
  topic_threads :: "string \<rightharpoonup> uuid list"
  agent_threads :: "string \<rightharpoonup> uuid set"
  message_threads :: "uuid \<rightharpoonup> uuid"
  thread_messages :: "uuid \<rightharpoonup> AgentMessage list"
  conversation_contexts :: "uuid \<rightharpoonup> ConversationContext"

text \<open>The defaults of \<^verbatim>\<open>__init__\<close>: ten messages of context and a timeout of 24 hours.\<close>

definition hours :: "int \<Rightarrow> timedelta" where
  "hours n = n * 3600 * 1000000"

definition new_conversation_manager :: ConversationManager where
  "new_conversation_manager =
     \<lparr>max_context_messages = 10, thread_timeout = hours 24, threads = Map.empty,
      topic_threads = Map.empty, agent_threads = Map.empty, message_threads = Map.empty,
      thread_messages = Map.empty, conversation_contexts = Map.empty\<rparr>"

definition generate_thread_title :: "AgentMessage \<Rightarrow> string" where
  "generate_thread_title m =
     (let stripped = strip (content m)
      in if length stripped \<le> 50 then stripped else take 47 stripped @ ''...'')"

text \<open>
  \<^verbatim>\<open>create_thread\<close>. \<open>fresh\<close> is the identifier \<^verbatim>\<open>uuid4()\<close> returns and \<open>now\<close> the
  clock: every \<^verbatim>\<open>datetime.utcnow()\<close> of one call is taken at the one instant \<open>now\<close>.
  A title that is \<^verbatim>\<open>None\<close> or empty is replaced by the generated one.
\<close>

definition create_thread ::
  "ConversationManager \<Rightarrow> string \<Rightarrow> AgentMessage \<Rightarrow> string option \<Rightarrow> uuid \<Rightarrow> datetime
     \<Rightarrow> ConversationThread \<times> ConversationManager" where
  "create_thread mgr tp initial_message given_title fresh now =
     (let sender = sender_id initial_message;
          thread = \<lparr>thread_id = fresh, thread_topic = tp,
                    title = Some (case given_title of
                                    None \<Rightarrow> generate_thread_title initial_message
                                  | Some t \<Rightarrow> if t = [] then generate_thread_title initial_message
                                              else t),
                    thread_created_at = now, last_activity = now, participants = {sender},
                    thread_message_count = 0, is_active = True, thread_metadata = Map.empty\<rparr>;
          context = \<lparr>ctx_thread_id = fresh, ctx_topic = tp, recent_messages = [initial_message],
                     ctx_participants = {sender}, thread_title = title thread,
                     ctx_created_at = now, ctx_last_activity = now\<rparr>
      in (thread,
          mgr\<lparr>threads := (threads mgr)(fresh \<mapsto> thread),
              topic_threads := (topic_threads mgr)(tp \<mapsto> get_or_empty (topic_threads mgr) tp @ [fresh]),
              agent_threads :=
                (agent_threads mgr)(sender \<mapsto>
                   (case agent_threads mgr sender of None \<Rightarrow> {} | Some S \<Rightarrow> S) \<union> {fresh}),
              thread_messages := (thread_messages mgr)(fresh \<mapsto> [initial_message]),
              message_threads := (message_threads mgr)(msg_id initial_message \<mapsto> fresh),
              conversation_contexts := (conversation_contexts mgr)(fresh \<mapsto> context)\<rparr>))"

text \<open>
  The loop of \<^verbatim>\<open>_find_or_create_thread\<close> over the thread ids of the topic: it returns
  the first id whose thread exists, is active and was active less than the timeout
  ago.
\<close>

fun find_thread :: "ConversationManager \<Rightarrow> datetime \<Rightarrow> uuid list \<Rightarrow> uuid option" where
  "find_thread mgr now [] = None"
| "find_thread mgr now (tid # tids) =
     (case threads mgr tid of
        None \<Rightarrow> find_thread mgr now tids
      | Some thread \<Rightarrow>
          if is_active thread
          then (if now - last_activity thread < thread_timeout mgr then Some tid
                else find_thread mgr now tids)
          else find_thread mgr now tids)"

definition find_or_create_thread ::
  "ConversationManager \<Rightarrow> AgentMessage \<Rightarrow> uuid \<Rightarrow> datetime \<Rightarrow> uuid \<times> ConversationManager" where
  "find_or_create_thread mgr m fresh now =
     (case (case topic_threads mgr (topic m) of
              None \<Rightarrow> None
            | Some tids \<Rightarrow> find_thread mgr now tids) of
        Some tid \<Rightarrow> (tid, mgr)
      | None \<Rightarrow>
          (case create_thread mgr (topic m) m None fresh now of
             (thread, mgr') \<Rightarrow> (thread_id thread, mgr')))"

definition update_conversation_context ::
  "ConversationManager \<Rightarrow> uuid \<Rightarrow> AgentMessage \<Rightarrow> ConversationManager" where
  "update_conversation_context mgr tid m =
     (case conversation_contexts mgr tid of
        None \<Rightarrow> mgr
      | Some context \<Rightarrow>
          (let recent = recent_messages context @ [m];
               recent' = (if int (length recent) > max_context_messages mgr
                          then slice_last (max_context_messages mgr) recent else recent)
           in mgr\<lparr>conversation_contexts := (conversation_contexts mgr)(tid \<mapsto>
                  context\<lparr>recent_messages := recent',
                          ctx_participants := ctx_participants context \<union> {sender_id m},
                          ctx_last_activity := timestamp m\<rparr>)\<rparr>))"

text \<open>
  \<^verbatim>\<open>add_message_to_thread(message, thread_id=None)\<close>: the thread is looked for only when
  no id is given.
\<close>

definition add_message_to_thread ::
  "ConversationManager \<Rightarrow> AgentMessage \<Rightarrow> uuid option \<Rightarrow> uuid \<Rightarrow> datetime
     \<Rightarrow> uuid \<times> ConversationManager" where
  "add_message_to_thread mgr m given fresh now =
     (let (tid, mgr1) = (case given of
                           None \<Rightarrow> find_or_create_thread mgr m fresh now
                         | Some t \<Rightarrow> (t, mgr));
          mgr2 = mgr1\<lparr>thread_messages :=
                        (thread_messages mgr1)(tid \<mapsto> get_or_empty (thread_messages mgr1) tid @ [m]),
                      message_threads := (message_threads mgr1)(msg_id m \<mapsto> tid)\<rparr>;
          mgr3 = (case threads mgr2 tid of
                    None \<Rightarrow> mgr2
                  | Some thread \<Rightarrow>
                      mgr2\<lparr>threads := (threads mgr2)(tid \<mapsto>
                              thread\<lparr>participants := participants thread \<union> {sender_id m},
                                     thread_message_count := thread_message_count thread + 1,
                                     last_activity := timestamp m\<rparr>),
                           agent_threads :=
                             (agent_threads mgr2)(sender_id m \<mapsto>
                                (case agent_threads mgr2 (sender_id m) of
                                   None \<Rightarrow> {} | Some S \<Rightarrow> S) \<union> {tid})\<rparr>)
      in (tid, update_conversation_context mgr3 tid m))"

text \<open>\<^verbatim>\<open>close_thread\<close> marks a thread inactive.\<close>

definition close_thread :: "ConversationManager \<Rightarrow> uuid \<Rightarrow> bool \<times> ConversationManager" where
  "close_thread mgr tid =
     (case threads mgr tid of
        None \<Rightarrow> (False, mgr)
      | Some thread \<Rightarrow> (True, mgr\<lparr>threads := (threads mgr)(tid \<mapsto> thread\<lparr>is_active := False\<rparr>)\<rparr>))"

subsection \<open>Notions used to state the properties of threading\<close>

text \<open>
  A thread is eligible when it exists, is active and its last activity is less than
  the timeout before \<open>now\<close>. \<open>newest_eligible\<close> follows the words of the specification:
  among the eligible threads of the topic, the one with the newest last activity.
\<close>

definition eligible :: "ConversationManager \<Rightarrow> datetime \<Rightarrow> uuid \<Rightarrow> bool" where
  "eligible mgr now tid =
     (case threads mgr tid of
        None \<Rightarrow> False
      | Some thread \<Rightarrow> is_active thread \<and> now - last_activity thread < thread_timeout mgr)"

definition activity_of :: "ConversationManager \<Rightarrow> uuid \<Rightarrow> datetime" where
  "activity_of mgr tid = (case threads mgr tid of None \<Rightarrow> 0 | Some thread \<Rightarrow> last_activity thread)"

fun newest_of :: "ConversationManager \<Rightarrow> uuid list \<Rightarrow> uuid option" where
  "newest_of mgr [] = None"
| "newest_of mgr (tid # tids) =
     (case newest_of mgr tids of
        None \<Rightarrow> Some tid
      | Some other \<Rightarrow> if activity_of mgr other > activity_of mgr tid then Some other else Some tid)"

definition newest_eligible :: "ConversationManager \<Rightarrow> datetime \<Rightarrow> string \<Rightarrow> uuid option" where
  "newest_eligible mgr now tp =
     newest_of mgr (filter (eligible mgr now) (get_or_empty (topic_threads mgr) tp))"

text \<open>
  The scenario: two threads on topic \<^verbatim>\<open>ops\<close>, thread 10 created at hour 0 and thread 20
  at hour 10, and a third message at hour 11.
\<close>

definition timed_message :: "uuid \<Rightarrow> datetime \<Rightarrow> AgentMessage" where
  "timed_message i t = (text_message ''alice'' ''ops'' ''status'')\<lparr>msg_id := i, timestamp := t\<rparr>"

definition two_threads :: ConversationManager where
  "two_threads =
     snd (create_thread
            (snd (create_thread new_conversation_manager ''ops'' (timed_message 10 (hours 0))
                    None 10 (hours 0)))
            ''ops'' (timed_message 20 (hours 10)) None 20 (hours 10))"

section \<open>Errors and retries (core/error\_handler.py)\<close>

datatype ErrorType =
    NETWORK_ERROR
  | LLM_PROVIDER_ERROR
  | MESSAGE_BROKER_ERROR
  | VALIDATION_ERROR
  | PERMISSION_ERROR
  | TIMEOUT_ERROR
  | UNKNOWN_ERROR

datatype RetryStrategy = IMMEDIATE | EXPONENTIAL_BACKOFF | LINEAR_BACKOFF | FIXED_DELAY

text \<open>
  The delays are floating point numbers in the source; the model computes with real
  numbers, so it is the source up to rounding (and has no overflow).
\<close>

record RetryConfig =
  config_max_retries :: int
  base_delay :: real
  max_delay :: real
  backoff_multiplier :: real
  strategy :: RetryStrategy
  retryable_errors :: "ErrorType list"

definition default_retry_config :: RetryConfig where
  "default_retry_config =
     \<lparr>config_max_retries = 3, base_delay = 1, max_delay = 60, backoff_multiplier = 2,
      strategy = EXPONENTIAL_BACKOFF,
      retryable_errors = [NETWORK_ERROR, TIMEOUT_ERROR, MESSAGE_BROKER_ERROR]\<rparr>"

text \<open>
  A value of the metadata of an error context: a text, or the text of an identifier.
\<close>

datatype meta_value = MetaStr string | MetaId uuid

record ErrorContext =
  error_type :: ErrorType
  error_message :: string
  err_timestamp :: datetime
  err_agent_id :: "string option"
  err_topic :: "string option"
  err_message_id :: "uuid option"
  err_retry_count :: int
  err_metadata :: "(string \<times> meta_value) list"

record RetryAttempt =
  attempt_number :: int
  attempt_timestamp :: datetime
  delay :: real
  attempt_error :: "py_exception option"
  success :: bool

text \<open>
  The handler. \<^verbatim>\<open>_retry_operation\<close> changes an error context that the error history
  already holds, so the history holds references and \<open>error_contexts\<close> maps a
  reference to the object; \<open>next_context\<close> is the reference of the next new object.
\<close>

record ErrorHandler =
  retry_config :: RetryConfig
  error_history :: "ref list"
  error_contexts :: "ref \<Rightarrow> ErrorContext"
  next_context :: ref
  retry_history :: "RetryAttempt list"
  handler_max_history_size :: nat

definition blank_context :: ErrorContext where
  "blank_context =
     \<lparr>error_type = UNKNOWN_ERROR, error_message = [], err_timestamp = 0, err_agent_id = None,
      err_topic = None, err_message_id = None, err_retry_count = 0, err_metadata = []\<rparr>"

definition new_error_handler :: "RetryConfig option \<Rightarrow> ErrorHandler" where
  "new_error_handler cfg =
     \<lparr>retry_config = (case cfg of None \<Rightarrow> default_retry_config | Some c \<Rightarrow> c),
      error_history = [], error_contexts = (\<lambda>r. blank_context), next_context = 0,
      retry_history = [], handler_max_history_size = 1000\<rparr>"

text \<open>
  \<^verbatim>\<open>_classify_error\<close> looks at the lower-cased class name and message of the exception.
\<close>

definition classify_error :: "py_exception \<Rightarrow> ErrorType" where
  "classify_error error =
     (let error_name = lower (exc_type error); message = lower (exc_message error)
      in if contains ''timeout'' error_name \<or> contains ''timeout'' message then TIMEOUT_ERROR
         else if contains ''network'' error_name \<or> contains ''connection'' message
           then NETWORK_ERROR
         else if contains ''kafka'' error_name \<or> contains ''redpanda'' message
           then MESSAGE_BROKER_ERROR
         else if contains ''openai'' error_name \<or> contains ''anthropic'' error_name
                 \<or> contains ''llm'' message
           then LLM_PROVIDER_ERROR
         else if contains ''validation'' error_name \<or> contains ''invalid'' message
           then VALIDATION_ERROR
         else if contains ''permission'' error_name \<or> contains ''unauthorized'' message
           then PERMISSION_ERROR
         else UNKNOWN_ERROR)"

text \<open>
  \<^verbatim>\<open>_calculate_delay(attempt)\<close>, with \<open>t\<close> the time \<^verbatim>\<open>asyncio.get_event_loop().time()\<close>
  returns: \<^verbatim>\<open>t % 1\<close> is the fractional part of \<open>t\<close>. The immediate and the fixed
  strategy return before the jitter and the cap.
\<close>

definition calculate_delay :: "RetryConfig \<Rightarrow> real \<Rightarrow> nat \<Rightarrow> real" where
  "calculate_delay cfg t attempt =
     (case strategy cfg of
        IMMEDIATE \<Rightarrow> 0
      | FIXED_DELAY \<Rightarrow> base_delay cfg
      | LINEAR_BACKOFF \<Rightarrow>
          (let d = base_delay cfg * (real attempt + 1);
               jitter = d * (1 / 10) * (1 / 2 - frac t)
           in min (d + jitter) (max_delay cfg))
      | EXPONENTIAL_BACKOFF \<Rightarrow>
          (let d = base_delay cfg * backoff_multiplier cfg ^ attempt;
               jitter = d * (1 / 10) * (1 / 2 - frac t)
           in min (d + jitter) (max_delay cfg)))"

text \<open>\<^verbatim>\<open>_record_error\<close> appends the context and keeps the last entries of the history.\<close>

definition record_error :: "ErrorHandler \<Rightarrow> ref \<Rightarrow> ErrorHandler" where
  "record_error h c =
     (let history = error_history h @ [c]
      in h\<lparr>error_history :=
             (if length history > handler_max_history_size h
              then slice_last (int (handler_max_history_size h)) history else history)\<rparr>)"





text \<open>
  \<^verbatim>\<open>is_error_retryable\<close> is declared \<^verbatim>\<open>async\<close>: a call makes a coroutine object, and
  only awaiting it gives the boolean. A coroutine object is true in a condition.
\<close>

datatype 'a coroutine = Coroutine 'a

fun await :: "'a coroutine \<Rightarrow> 'a" where
  "await (Coroutine v) = v"

fun truthy :: "'a coroutine \<Rightarrow> bool" where
  "truthy (Coroutine v) = True"

definition is_error_retryable :: "ErrorHandler \<Rightarrow> py_exception \<Rightarrow> bool coroutine" where
  "is_error_retryable h error =
     Coroutine (classify_error error \<in> set (retryable_errors (retry_config h)))"

text \<open>
  \<^verbatim>\<open>MessageErrorHandler.handle_message_error\<close>. Its condition calls
  \<^verbatim>\<open>self.is_error_retryable(error)\<close> without \<^verbatim>\<open>await\<close>. \<open>now\<close> is the wall clock
  of the call, read for the error context and by \<^verbatim>\<open>should_retry\<close>.
\<close>

definition handle_message_error ::
  "datetime \<Rightarrow> ErrorHandler \<Rightarrow> py_exception \<Rightarrow> AgentMessage \<Rightarrow> string \<Rightarrow> bool \<times> ErrorHandler" where
  "handle_message_error now h error m operation =
     (let c = next_context h;
          error_context =
            \<lparr>error_type = classify_error error, error_message = exc_message error,
             err_timestamp = now, err_agent_id = Some (sender_id m), err_topic = Some (topic m),
             err_message_id = Some (msg_id m), err_retry_count = 0,
             err_metadata = [(''message_id'', MetaId (msg_id m)), (''topic'', MetaStr (topic m)),
                             (''sender_id'', MetaStr (sender_id m)),
                             (''operation'', MetaStr operation)]\<rparr>;
          h1 = record_error
                 (h\<lparr>error_contexts := (error_contexts h)(c := error_context),
                    next_context := Suc c\<rparr>) c
      in if should_retry now m \<and> truthy (is_error_retryable h1 error) then (True, h1)
         else (False, h1))"

subsection \<open>Notions used to state the properties of retries\<close>



definition validation_error :: py_exception where
  "validation_error = PyException ''ValueError'' ''Invalid input''"




definition fixed_config :: RetryConfig where
  "fixed_config = default_retry_config\<lparr>strategy := FIXED_DELAY, base_delay := 100\<rparr>"

section \<open>Properties of the string functions\<close>

lemmas lower_eval = lower_def lower_char_def upper_case_letters_def lower_case_letters_def

lemma startswith_iff: "startswith s p \<longleftrightarrow> (\<exists>suffix. s = p @ suffix)"
  by (induction s p rule: startswith.induct) auto

lemma contains_iff: "contains sub s \<longleftrightarrow> (\<exists>before after. s = before @ sub @ after)"
proof (induction s)
  case Nil
  then show ?case by auto
next
  case (Cons c cs)
  show ?case
  proof
    assume "contains sub (c # cs)"
    then consider "startswith (c # cs) sub" | "contains sub cs" by auto
    then show "\<exists>before after. c # cs = before @ sub @ after"
    proof cases
      case 1
      then obtain suffix where "c # cs = sub @ suffix" by (auto simp: startswith_iff)
      then have "c # cs = [] @ sub @ suffix" by simp
      then show ?thesis by blast
    next
      case 2
      with Cons obtain before after where "cs = before @ sub @ after" by blast
      then have "c # cs = (c # before) @ sub @ after" by simp
      then show ?thesis by blast
    qed
  next
    assume "\<exists>before after. c # cs = before @ sub @ after"
    then obtain before after where eq: "c # cs = before @ sub @ after" by blast
    show "contains sub (c # cs)"
    proof (cases before)
      case Nil
      with eq have "startswith (c # cs) sub" by (auto simp: startswith_iff)
      then show ?thesis by simp
    next
      case (Cons b bs)
      with eq have "cs = bs @ sub @ after" by simp
      with Cons.IH have "contains sub cs" by blast
      then show ?thesis by simp
    qed
  qed
qed

section \<open>Properties of topic validation and permissions\<close>

subsection \<open>Topic names\<close>

lemma lower_char_id: "name_char c \<Longrightarrow> lower_char c = c"
  unfolding name_char_def
  by (simp, elim disjE; simp add: lower_char_def upper_case_letters_def lower_case_letters_def)

lemma lower_id: "list_all name_char s \<Longrightarrow> lower s = s"
  unfolding lower_def
  by (induction s) (simp_all add: lower_char_id)

lemma name_char_not_newline: "name_char c \<Longrightarrow> c \<noteq> CHR 0x0A"
  unfolding name_char_def
  by (simp, elim disjE; simp)

lemma last_name_char: "list_all name_char s \<Longrightarrow> s \<noteq> [] \<Longrightarrow> last s \<noteq> CHR 0x0A"
  by (induction s) (auto simp: name_char_not_newline)

lemma strip_final_newline_id: "list_all name_char s \<Longrightarrow> strip_final_newline s = s"
  using last_name_char by (auto simp: strip_final_newline_def)

lemma match_name_chars_iff: "list_all name_char s \<Longrightarrow> match_name_chars s \<longleftrightarrow> s \<noteq> []"
  by (simp add: match_name_chars_def strip_final_newline_id)

lemma is_valid_iff: "is_valid (validate_topic_name s ty) \<longleftrightarrow> name_errors s ty = []"
  by (simp add: validate_topic_name_def Let_def)

lemma name_errors_wellformed:
  assumes "list_all name_char s" "\<not> startswith s ''-''" "\<not> endswith s ''-''"
    "\<not> contains ''--'' s" "s \<notin> reserved_topics"
  shows "name_errors s None =
    (if length s < 3 then [TooShort 3] @ (if s = [] then [InvalidCharacters] else [])
     else if length s > 50 then [TooLong 50] else [])"
proof -
  have "lower s = s" using assms(1) by (rule lower_id)
  moreover have "match_name_chars s \<longleftrightarrow> s \<noteq> []" using assms(1) by (rule match_name_chars_iff)
  ultimately show ?thesis
    using assms(2-5)
    by (cases "s = []") (simp_all add: name_errors_def min_topic_length_def max_topic_length_def)
qed

lemmas validate_defs = validate_topic_name_def name_errors_def min_topic_length_def
  max_topic_length_def lower_eval reserved_topics_def match_name_chars_def
  strip_final_newline_def name_char_def endswith_def Let_def find_similar_topics_def

lemma reserved_rejected:
  "r \<in> reserved_topics \<Longrightarrow> ReservedName r \<in> set (errors (validate_topic_name r ty))"
  unfolding reserved_topics_def
  by (simp, elim disjE;
      simp add: validate_topic_name_def name_errors_def Let_def lower_eval
        reserved_topics_def)

text \<open>
  Claim C8. For a name made of \<^verbatim>\<open>[a-z0-9-]\<close> only, with no leading, trailing or
  consecutive hyphen and not reserved, validation (with no topic type) accepts it
  exactly when its length is between 3 and 50, so lengths 3 and 50 pass and lengths 2
  and 51 fail; \<^verbatim>\<open>ab--cd\<close> is rejected for its consecutive hyphens, \<^verbatim>\<open>-abc\<close> and
  \<^verbatim>\<open>abc-\<close> for the hyphen at an end, and every reserved name is rejected, whatever the
  topic type.
\<close>

theorem validate_topic_name_boundaries:
  "(\<forall>s. list_all name_char s \<and> \<not> startswith s ''-'' \<and> \<not> endswith s ''-''
        \<and> \<not> contains ''--'' s \<and> s \<notin> reserved_topics
      \<longrightarrow> (is_valid (validate_topic_name s None) \<longleftrightarrow> 3 \<le> length s \<and> length s \<le> 50))
   \<and> errors (validate_topic_name ''ab--cd'' None) = [ConsecutiveHyphens]
   \<and> errors (validate_topic_name ''-abc'' None) = [EdgeHyphen]
   \<and> errors (validate_topic_name ''abc-'' None) = [EdgeHyphen]
   \<and> \<not> is_valid (validate_topic_name ''ab--cd'' None)
   \<and> \<not> is_valid (validate_topic_name ''-abc'' None)
   \<and> \<not> is_valid (validate_topic_name ''abc-'' None)
   \<and> (\<forall>r ty. r \<in> reserved_topics \<longrightarrow> \<not> is_valid (validate_topic_name r ty))"
proof (intro conjI allI impI)
  fix s
  assume "list_all name_char s \<and> \<not> startswith s ''-'' \<and> \<not> endswith s ''-''
        \<and> \<not> contains ''--'' s \<and> s \<notin> reserved_topics"
  then have "name_errors s None =
    (if length s < 3 then [TooShort 3] @ (if s = [] then [InvalidCharacters] else [])
     else if length s > 50 then [TooLong 50] else [])"
    by (intro name_errors_wellformed) simp_all
  then show "is_valid (validate_topic_name s None) \<longleftrightarrow> 3 \<le> length s \<and> length s \<le> 50"
    by (auto simp: is_valid_iff)
next
  show "errors (validate_topic_name ''ab--cd'' None) = [ConsecutiveHyphens]"
    by (simp add: validate_defs)
  show "errors (validate_topic_name ''-abc'' None) = [EdgeHyphen]"
    by (simp add: validate_defs)
  show "errors (validate_topic_name ''abc-'' None) = [EdgeHyphen]"
    by (simp add: validate_defs)
  show "\<not> is_valid (validate_topic_name ''ab--cd'' None)"
    by (simp add: validate_defs)
  show "\<not> is_valid (validate_topic_name ''-abc'' None)"
    by (simp add: validate_defs)
  show "\<not> is_valid (validate_topic_name ''abc-'' None)"
    by (simp add: validate_defs)
next
  fix r ty
  assume "r \<in> reserved_topics"
  then have "ReservedName r \<in> set (errors (validate_topic_name r ty))"
    by (rule reserved_rejected)
  then show "\<not> is_valid (validate_topic_name r ty)"
    by (auto simp: validate_topic_name_def Let_def)
qed

theorem validate_topic_name_boundaries_witness:
  "is_valid (validate_topic_name ''abc'' None)
   \<and> is_valid (validate_topic_name ''aaaaaaaaaabbbbbbbbbbccccccccccddddddddddeeeeeeeeee'' None)
   \<and> \<not> is_valid (validate_topic_name ''ab'' None)
   \<and> \<not> is_valid (validate_topic_name ''aaaaaaaaaabbbbbbbbbbccccccccccddddddddddeeeeeeeeeef'' None)
   \<and> \<not> is_valid (validate_topic_name ''system'' None)"
proof -
  note b = validate_topic_name_boundaries [THEN conjunct1, rule_format]
  note r = validate_topic_name_boundaries [THEN conjunct2, THEN conjunct2, THEN conjunct2,
      THEN conjunct2, THEN conjunct2, THEN conjunct2, THEN conjunct2, rule_format]
  have 1: "is_valid (validate_topic_name ''abc'' None)"
    by (subst b) (simp_all add: name_char_def endswith_def reserved_topics_def)
  have 2: "is_valid (validate_topic_name ''aaaaaaaaaabbbbbbbbbbccccccccccddddddddddeeeeeeeeee'' None)"
    by (subst b) (simp_all add: name_char_def endswith_def reserved_topics_def)
  have 3: "\<not> is_valid (validate_topic_name ''ab'' None)"
    by (subst b) (simp_all add: name_char_def endswith_def reserved_topics_def)
  have 4: "\<not> is_valid (validate_topic_name ''aaaaaaaaaabbbbbbbbbbccccccccccddddddddddeeeeeeeeeef'' None)"
    by (subst b) (simp_all add: name_char_def endswith_def reserved_topics_def)
  have 5: "\<not> is_valid (validate_topic_name ''system'' None)"
    by (rule r) (simp add: reserved_topics_def)
  from 1 2 3 4 5 show ?thesis by blast
qed

subsection \<open>Permissions\<close>

lemma check_records_find:
  "check_records perms A L' =
     (case find (\<lambda>q. perm_agent_id q = A) perms of
        None \<Rightarrow> False
      | Some p \<Rightarrow> level_hierarchy L' \<le> level_hierarchy (permission_level p))"
  by (induction perms) (simp_all add: permission_level_sufficient_def)

lemma find_update_permission:
  "update_permission perms A L g = Some perms' \<Longrightarrow>
   \<exists>p. find (\<lambda>q. perm_agent_id q = A) perms' = Some p \<and> permission_level p = L"
  by (induction perms arbitrary: perms') (auto split: if_splits)

lemma update_permission_None:
  "update_permission perms A L g = None \<Longrightarrow> find (\<lambda>q. perm_agent_id q = A) perms = None"
  by (induction perms) (auto split: if_splits)

lemma check_records_append:
  "find (\<lambda>q. perm_agent_id q = A) perms = None \<Longrightarrow>
   check_records (perms @ rest) A L' = check_records rest A L'"
  by (induction perms) (auto split: if_splits)

lemma check_after_grant:
  "check_permission (snd (grant_permission tp T A L g)) T A L'
     \<longleftrightarrow> level_hierarchy L' \<le> level_hierarchy L"
proof (cases "update_permission (case tp T of None \<Rightarrow> [] | Some ps \<Rightarrow> ps) A L g")
  case None
  then show ?thesis
    by (simp add: grant_permission_def check_permission_def check_records_append
        update_permission_None permission_level_sufficient_def)
next
  case (Some perms')
  then obtain p where "find (\<lambda>q. perm_agent_id q = A) perms' = Some p" "permission_level p = L"
    using find_update_permission by blast
  with Some show ?thesis
    by (simp add: grant_permission_def check_permission_def check_records_find)
qed

text \<open>
  Claim C7. Permission checks are monotonic in the required level. When the first record
  of agent \<open>A\<close> on topic \<open>T\<close> holds a level at or above the required one in the ordering
  read < write < admin < owner, the check is true; after a grant of level \<open>L\<close> the check
  is true exactly for the requirements at or below \<open>L\<close>; with no record for the pair the
  check is false for every requirement; an agent granted write on \<open>t1\<close> passes the read
  and the write check and fails the admin check.
\<close>

theorem check_permission_monotonic:
  "(tp T = Some perms \<and> find (\<lambda>q. perm_agent_id q = A) perms = Some p
      \<and> level_hierarchy L' \<le> level_hierarchy (permission_level p)
      \<longrightarrow> check_permission tp T A L')
   \<and> (check_permission (snd (grant_permission tp T A L g)) T A L'
        \<longleftrightarrow> level_hierarchy L' \<le> level_hierarchy L)
   \<and> ((tp T = None \<or> (\<exists>ps. tp T = Some ps \<and> (\<forall>q \<in> set ps. perm_agent_id q \<noteq> A)))
        \<longrightarrow> \<not> check_permission tp T A L')
   \<and> level_hierarchy READ < level_hierarchy WRITE
   \<and> level_hierarchy WRITE < level_hierarchy ADMIN
   \<and> level_hierarchy ADMIN < level_hierarchy OWNER
   \<and> check_permission (snd (grant_permission Map.empty ''t1'' ''A'' WRITE ''root'')) ''t1'' ''A'' READ
   \<and> check_permission (snd (grant_permission Map.empty ''t1'' ''A'' WRITE ''root'')) ''t1'' ''A'' WRITE
   \<and> \<not> check_permission (snd (grant_permission Map.empty ''t1'' ''A'' WRITE ''root'')) ''t1'' ''A'' ADMIN"
proof (intro conjI impI)
  assume "tp T = Some perms \<and> find (\<lambda>q. perm_agent_id q = A) perms = Some p
      \<and> level_hierarchy L' \<le> level_hierarchy (permission_level p)"
  then show "check_permission tp T A L'"
    by (simp add: check_permission_def check_records_find)
next
  show "check_permission (snd (grant_permission tp T A L g)) T A L'
        \<longleftrightarrow> level_hierarchy L' \<le> level_hierarchy L"
    by (rule check_after_grant)
next
  assume "tp T = None \<or> (\<exists>ps. tp T = Some ps \<and> (\<forall>q \<in> set ps. perm_agent_id q \<noteq> A))"
  then show "\<not> check_permission tp T A L'"
  proof
    assume "tp T = None"
    then show ?thesis by (simp add: check_permission_def)
  next
    assume "\<exists>ps. tp T = Some ps \<and> (\<forall>q \<in> set ps. perm_agent_id q \<noteq> A)"
    then obtain ps where ps: "tp T = Some ps" "\<forall>q \<in> set ps. perm_agent_id q \<noteq> A" by blast
    then have "find (\<lambda>q. perm_agent_id q = A) ps = None"
      by (simp add: find_None_iff)
    with ps show ?thesis by (simp add: check_permission_def check_records_find)
  qed
qed (simp_all add: grant_permission_def check_permission_def permission_level_sufficient_def)

theorem check_permission_monotonic_witness:
  "check_permission
     [''t1'' \<mapsto> [\<lparr>perm_agent_id = ''A'', permission_level = ADMIN, granted_by = ''root'',
                  granted_at = ''now''\<rparr>]] ''t1'' ''A'' WRITE
   \<and> \<not> check_permission
     [''t1'' \<mapsto> [\<lparr>perm_agent_id = ''B'', permission_level = ADMIN, granted_by = ''root'',
                  granted_at = ''now''\<rparr>]] ''t1'' ''A'' READ
   \<and> \<not> check_permission Map.empty ''t1'' ''A'' READ"
proof -
  let ?r = "\<lparr>perm_agent_id = ''A'', permission_level = ADMIN, granted_by = ''root'',
             granted_at = ''now''\<rparr>"
  let ?b = "\<lparr>perm_agent_id = ''B'', permission_level = ADMIN, granted_by = ''root'',
             granted_at = ''now''\<rparr>"
  have 1: "check_permission [''t1'' \<mapsto> [?r]] ''t1'' ''A'' WRITE"
    using check_permission_monotonic
      [of "[''t1'' \<mapsto> [?r]]" "''t1''" "[?r]" "''A''" ?r WRITE]
    by simp
  have 2: "\<not> check_permission [''t1'' \<mapsto> [?b]] ''t1'' ''A'' READ"
    using check_permission_monotonic
      [of "[''t1'' \<mapsto> [?b]]" "''t1''" _ "''A''" _ READ]
    by simp
  have 3: "\<not> check_permission Map.empty ''t1'' ''A'' READ"
    using check_permission_monotonic [of Map.empty "''t1''" _ "''A''" _ READ]
    by simp
  from 1 2 3 show ?thesis by blast
qed

section \<open>Properties of the subscription manager\<close>

lemma deliver_all_Nil [simp]: "deliver_all m [] obj = obj"
  by (simp add: deliver_all_def)

lemma deliver_all_Cons [simp]:
  "deliver_all m (r # rs) obj = deliver_all m rs (obj(r := deliver_to m (obj r)))"
  by (simp add: deliver_all_def)

lemma deliver_all_snoc [simp]:
  "deliver_all m (rs @ [r]) obj = (deliver_all m rs obj)(r := deliver_to m (deliver_all m rs obj r))"
  by (simp add: deliver_all_def)

lemma delivers_deliver_to [simp]: "delivers re m (deliver_to m' s) = delivers re m s"
  by (simp add: delivers_def deliver_to_def)

lemma filter_returns_deliver_to [simp]: "filter_returns re m (deliver_to m' s) = filter_returns re m s"
  by (simp add: filter_returns_def deliver_to_def)







lemmas manager_eval = ops_manager_def subscribe_agent_to_topic_def new_manager_def
  get_or_empty_def route_message_def Let_def blank_subscription_def










subsection \<open>Unsubscribing\<close>

lemma unsubscribe_result:
  "fst (unsubscribe_agent_from_topic mgr A T) \<longleftrightarrow> subscriptions mgr T \<noteq> None"
  by (simp add: unsubscribe_agent_from_topic_def Let_def split: option.splits prod.splits)

lemma subscribers_topic_present:
  "get_topic_subscribers mgr T \<noteq> [] \<Longrightarrow> subscriptions mgr T \<noteq> None"
  by (auto simp: get_topic_subscribers_def get_or_empty_def split: option.splits)

lemma unsubscribe_keeps_others:
  assumes "get_topic_subscribers mgr T \<noteq> []"
    and "\<forall>s \<in> set (get_topic_subscribers mgr T). sub_agent_id s \<noteq> A"
  shows "subscriptions (snd (unsubscribe_agent_from_topic mgr A T)) = subscriptions mgr"
proof -
  from assms(1) obtain rs where rs: "subscriptions mgr T = Some rs" "rs \<noteq> []"
    by (auto simp: get_topic_subscribers_def get_or_empty_def split: option.splits)
  with assms(2) have "\<forall>r \<in> set rs. sub_agent_id (objects mgr r) \<noteq> A"
    by (simp add: get_topic_subscribers_def get_or_empty_def)
  then have "filter (\<lambda>r. \<not> (sub_agent_id (objects mgr r) = A \<and> sub_topic (objects mgr r) = T)) rs = rs"
    by (simp add: filter_id_conv)
  with rs show ?thesis
    by (simp add: unsubscribe_agent_from_topic_def Let_def store_or_delete_def map_upd_triv
        split: prod.splits)
qed

text \<open>
  Claim C10. \<^verbatim>\<open>unsubscribe_agent_from_topic\<close> returns true exactly when the topic has an
  entry in the registry: it is true whenever the topic has a subscription, also when
  none of them belongs to the given agent (and then the registry is unchanged), and it
  is false only when the topic has no subscription at all.
\<close>

theorem unsubscribe_signals_topic_presence:
  "(fst (unsubscribe_agent_from_topic mgr A T) \<longleftrightarrow> subscriptions mgr T \<noteq> None)
   \<and> (get_topic_subscribers mgr T \<noteq> [] \<longrightarrow> fst (unsubscribe_agent_from_topic mgr A T))
   \<and> (get_topic_subscribers mgr T \<noteq> []
        \<and> (\<forall>s \<in> set (get_topic_subscribers mgr T). sub_agent_id s \<noteq> A)
      \<longrightarrow> fst (unsubscribe_agent_from_topic mgr A T)
          \<and> subscriptions (snd (unsubscribe_agent_from_topic mgr A T)) = subscriptions mgr)
   \<and> (\<not> fst (unsubscribe_agent_from_topic mgr A T) \<longrightarrow> get_topic_subscribers mgr T = [])
   \<and> fst (unsubscribe_agent_from_topic ops_manager ''alice'' ''ops'')
   \<and> subscriptions (snd (unsubscribe_agent_from_topic ops_manager ''alice'' ''ops'')) ''ops''
        = Some [0]
   \<and> \<not> fst (unsubscribe_agent_from_topic (new_manager blank_subscription) ''alice'' ''ops'')"
proof (intro conjI impI)
  show "fst (unsubscribe_agent_from_topic mgr A T) \<longleftrightarrow> subscriptions mgr T \<noteq> None"
    by (rule unsubscribe_result)
  show "fst (unsubscribe_agent_from_topic mgr A T)" if "get_topic_subscribers mgr T \<noteq> []"
    using that by (simp add: unsubscribe_result subscribers_topic_present)
  show "fst (unsubscribe_agent_from_topic mgr A T)"
    if "get_topic_subscribers mgr T \<noteq> []
        \<and> (\<forall>s \<in> set (get_topic_subscribers mgr T). sub_agent_id s \<noteq> A)"
    using that by (simp add: unsubscribe_result subscribers_topic_present)
  show "subscriptions (snd (unsubscribe_agent_from_topic mgr A T)) = subscriptions mgr"
    if "get_topic_subscribers mgr T \<noteq> []
        \<and> (\<forall>s \<in> set (get_topic_subscribers mgr T). sub_agent_id s \<noteq> A)"
    using that by (intro unsubscribe_keeps_others) simp_all
  show "get_topic_subscribers mgr T = []" if "\<not> fst (unsubscribe_agent_from_topic mgr A T)"
    using that by (simp add: unsubscribe_result get_topic_subscribers_def get_or_empty_def)
  show "fst (unsubscribe_agent_from_topic ops_manager ''alice'' ''ops'')"
    by (simp add: unsubscribe_result manager_eval)
  show "subscriptions (snd (unsubscribe_agent_from_topic ops_manager ''alice'' ''ops'')) ''ops''
        = Some [0]"
    by (simp add: unsubscribe_agent_from_topic_def store_or_delete_def manager_eval)
  show "\<not> fst (unsubscribe_agent_from_topic (new_manager blank_subscription) ''alice'' ''ops'')"
    by (simp add: unsubscribe_result new_manager_def)
qed

theorem unsubscribe_signals_topic_presence_witness:
  "get_topic_subscribers ops_manager ''ops'' \<noteq> []
   \<and> fst (unsubscribe_agent_from_topic ops_manager ''carol'' ''ops'')
   \<and> subscriptions (snd (unsubscribe_agent_from_topic ops_manager ''carol'' ''ops''))
        = subscriptions ops_manager
   \<and> get_topic_subscribers (new_manager blank_subscription) ''ops'' = []"
proof -
  have subs: "get_topic_subscribers ops_manager ''ops'' \<noteq> []"
    by (simp add: get_topic_subscribers_def manager_eval)
  have others: "\<forall>s \<in> set (get_topic_subscribers ops_manager ''ops''). sub_agent_id s \<noteq> ''carol''"
    by (simp add: get_topic_subscribers_def manager_eval)
  have no: "\<not> fst (unsubscribe_agent_from_topic (new_manager blank_subscription) ''carol'' ''ops'')"
    by (simp add: unsubscribe_agent_from_topic_def new_manager_def)
  note t = unsubscribe_signals_topic_presence [of ops_manager "''carol''" "''ops''"]
  note u = unsubscribe_signals_topic_presence
    [of "new_manager blank_subscription" "''carol''" "''ops''"]
  from t subs others
  have "fst (unsubscribe_agent_from_topic ops_manager ''carol'' ''ops'')
     \<and> subscriptions (snd (unsubscribe_agent_from_topic ops_manager ''carol'' ''ops''))
        = subscriptions ops_manager"
    by blast
  moreover from u no have "get_topic_subscribers (new_manager blank_subscription) ''ops'' = []"
    by blast
  ultimately show ?thesis using subs by blast
qed

section \<open>Properties of the routing rules\<close>







subsection \<open>Predicates that raise\<close>








section \<open>Properties of the conversation manager\<close>

lemma find_thread_first: "find_thread mgr now tids = find (eligible mgr now) tids"
  by (induction tids) (auto simp: eligible_def split: option.splits)

lemma find_or_create_thread_result:
  "find_or_create_thread mgr m fresh now =
     (case find (eligible mgr now) (get_or_empty (topic_threads mgr) (topic m)) of
        Some tid \<Rightarrow> (tid, mgr)
      | None \<Rightarrow> (fresh, snd (create_thread mgr (topic m) m None fresh now)))"
  by (simp add: find_or_create_thread_def find_thread_first get_or_empty_def create_thread_def
      Let_def split: option.splits)

lemma update_context_threads [simp]:
  "threads (update_conversation_context mgr tid m) = threads mgr"
  "topic_threads (update_conversation_context mgr tid m) = topic_threads mgr"
  by (simp_all add: update_conversation_context_def Let_def split: option.splits)

lemma add_message_given_result:
  "fst (add_message_to_thread mgr m given fresh now) =
     (case given of Some t \<Rightarrow> t | None \<Rightarrow> fst (find_or_create_thread mgr m fresh now))"
  by (simp add: add_message_to_thread_def Let_def split: option.splits prod.splits)

lemma add_message_topic_threads:
  "topic_threads (snd (add_message_to_thread mgr m None fresh now))
     = topic_threads (snd (find_or_create_thread mgr m fresh now))"
  by (simp add: add_message_to_thread_def Let_def split: option.splits prod.splits)

lemma add_message_dom_threads:
  "dom (threads (snd (add_message_to_thread mgr m None fresh now)))
     = dom (threads (snd (find_or_create_thread mgr m fresh now)))"
  by (auto simp: add_message_to_thread_def Let_def split: option.splits prod.splits if_splits)

lemmas thread_eval = two_threads_def create_thread_def new_conversation_manager_def
  timed_message_def text_message_def hours_def get_or_empty_def Let_def

lemma two_threads_topic: "topic_threads two_threads ''ops'' = Some [10, 20]"
  by (simp add: thread_eval)

lemma two_threads_eligible:
  "eligible two_threads (hours 11) 10" "eligible two_threads (hours 11) 20"
  by (simp_all add: eligible_def thread_eval)

lemma two_threads_activity:
  "activity_of two_threads 10 < activity_of two_threads 20"
  by (simp add: activity_of_def thread_eval)

text \<open>
  Claim C4 as stated fails: with two eligible threads on the topic, thread 10 listed
  first and thread 20 more recently active, a message with no thread id goes to thread
  10, while the most recently active eligible thread is thread 20.
\<close>

theorem add_message_reuses_oldest_listed:
  "newest_eligible two_threads (hours 11) ''ops'' = Some 20
   \<and> fst (add_message_to_thread two_threads (timed_message 30 (hours 11)) None 30 (hours 11)) = 10"
proof -
  have "newest_eligible two_threads (hours 11) ''ops'' = Some 20"
    by (simp add: newest_eligible_def get_or_empty_def two_threads_topic two_threads_eligible
        two_threads_activity)
  moreover have "topic (timed_message 30 (hours 11)) = ''ops''"
    by (simp add: timed_message_def text_message_def)
  then have "fst (add_message_to_thread two_threads (timed_message 30 (hours 11)) None 30 (hours 11)) = 10"
    by (simp add: add_message_given_result find_or_create_thread_result get_or_empty_def
        two_threads_topic two_threads_eligible)
  ultimately show ?thesis by simp
qed

text \<open>
  Claim C4, amended. For a message added with no thread id, \<^verbatim>\<open>add_message_to_thread\<close>
  reuses the first eligible thread in the order of the topic's thread list (the order
  of creation), and then creates no thread; when the list has no eligible thread it
  creates a new one, appends it to the topic's list and returns its id.
\<close>

theorem add_message_reuses_first_eligible:
  "(find (eligible mgr now) (get_or_empty (topic_threads mgr) (topic m)) = Some tid \<longrightarrow>
      fst (add_message_to_thread mgr m None fresh now) = tid
      \<and> eligible mgr now tid
      \<and> dom (threads (snd (add_message_to_thread mgr m None fresh now))) = dom (threads mgr)
      \<and> topic_threads (snd (add_message_to_thread mgr m None fresh now)) = topic_threads mgr)
   \<and> (find (eligible mgr now) (get_or_empty (topic_threads mgr) (topic m)) = None \<longrightarrow>
      fst (add_message_to_thread mgr m None fresh now) = fresh
      \<and> fresh \<in> dom (threads (snd (add_message_to_thread mgr m None fresh now)))
      \<and> topic_threads (snd (add_message_to_thread mgr m None fresh now)) (topic m)
          = Some (get_or_empty (topic_threads mgr) (topic m) @ [fresh]))
   \<and> ((\<exists>t \<in> set (get_or_empty (topic_threads mgr) (topic m)). eligible mgr now t) \<longleftrightarrow>
        find (eligible mgr now) (get_or_empty (topic_threads mgr) (topic m)) \<noteq> None)"
proof (intro conjI impI)
  assume f: "find (eligible mgr now) (get_or_empty (topic_threads mgr) (topic m)) = Some tid"
  then show "fst (add_message_to_thread mgr m None fresh now) = tid"
    by (simp add: add_message_given_result find_or_create_thread_result)
  from f show "eligible mgr now tid"
    by (auto simp: find_Some_iff)
  from f show "dom (threads (snd (add_message_to_thread mgr m None fresh now))) = dom (threads mgr)"
    by (simp add: add_message_dom_threads find_or_create_thread_result)
  from f show "topic_threads (snd (add_message_to_thread mgr m None fresh now)) = topic_threads mgr"
    by (simp add: add_message_topic_threads find_or_create_thread_result)
next
  assume f: "find (eligible mgr now) (get_or_empty (topic_threads mgr) (topic m)) = None"
  then show "fst (add_message_to_thread mgr m None fresh now) = fresh"
    by (simp add: add_message_given_result find_or_create_thread_result)
  from f show "fresh \<in> dom (threads (snd (add_message_to_thread mgr m None fresh now)))"
    by (simp add: add_message_dom_threads find_or_create_thread_result create_thread_def Let_def)
  from f show "topic_threads (snd (add_message_to_thread mgr m None fresh now)) (topic m)
          = Some (get_or_empty (topic_threads mgr) (topic m) @ [fresh])"
    by (simp add: add_message_topic_threads find_or_create_thread_result create_thread_def Let_def)
next
  show "(\<exists>t \<in> set (get_or_empty (topic_threads mgr) (topic m)). eligible mgr now t) \<longleftrightarrow>
        find (eligible mgr now) (get_or_empty (topic_threads mgr) (topic m)) \<noteq> None"
    by (auto simp: find_None_iff)
qed


theorem add_message_reuses_first_eligible_witness:
  "fst (add_message_to_thread two_threads (timed_message 30 (hours 11)) None 30 (hours 11)) = 10
   \<and> topic_threads (snd (add_message_to_thread two_threads (timed_message 30 (hours 11)) None 30
         (hours 11))) = topic_threads two_threads
   \<and> fst (add_message_to_thread two_threads (timed_message 30 (hours 40)) None 30 (hours 40)) = 30
   \<and> topic_threads (snd (add_message_to_thread two_threads (timed_message 30 (hours 40)) None 30
         (hours 40))) ''ops'' = Some [10, 20, 30]"
proof -
  have t: "topic (timed_message 30 (hours 11)) = ''ops''" "topic (timed_message 30 (hours 40)) = ''ops''"
    by (simp_all add: timed_message_def text_message_def)
  have regs: "get_or_empty (topic_threads two_threads) ''ops'' = [10, 20]"
    by (simp add: get_or_empty_def two_threads_topic)
  have stale: "\<not> eligible two_threads (hours 40) 10" "\<not> eligible two_threads (hours 40) 20"
    by (simp_all add: eligible_def thread_eval)
  have early: "find (eligible two_threads (hours 11))
      (get_or_empty (topic_threads two_threads) (topic (timed_message 30 (hours 11)))) = Some 10"
    by (simp add: t regs two_threads_eligible)
  have late: "find (eligible two_threads (hours 40))
      (get_or_empty (topic_threads two_threads) (topic (timed_message 30 (hours 40)))) = None"
    by (simp add: t regs stale)
  note a = add_message_reuses_first_eligible
    [of two_threads "hours 11" "timed_message 30 (hours 11)" 10 30, THEN conjunct1, rule_format,
     OF early]
  note b = add_message_reuses_first_eligible
    [of two_threads "hours 40" "timed_message 30 (hours 40)" 10 30, THEN conjunct2,
     THEN conjunct1, rule_format, OF late]
  from a b show ?thesis by (simp add: t regs)
qed

section \<open>Properties of error handling and retries\<close>

lemma truthy_coroutine: "truthy c"
  by (cases c) simp

lemma handle_message_error_result:
  "fst (handle_message_error now h error m operation) = should_retry now m"
  by (simp add: handle_message_error_def Let_def truthy_coroutine)

lemma classify_validation: "classify_error validation_error = VALIDATION_ERROR"
  by (simp add: classify_error_def validation_error_def lower_eval)


text \<open>
  Claim C2 is not what the code does. The message-level handler permits a retry
  whenever the message itself may be retried, whatever the kind of the error: the
  un-awaited call of \<^verbatim>\<open>is_error_retryable\<close> is a coroutine object and counts as true.
  A message with retries left and a validation error (not retryable when the check is
  awaited) gets a retry.
\<close>

theorem handle_message_error_retries_validation_error:
  "classify_error validation_error = VALIDATION_ERROR
   \<and> await (is_error_retryable (new_error_handler None) validation_error) = False
   \<and> retry_count (text_message ''alice'' ''ops'' ''hello'')
        < max_retries (text_message ''alice'' ''ops'' ''hello'')
   \<and> fst (handle_message_error 0 (new_error_handler None) validation_error
            (text_message ''alice'' ''ops'' ''hello'') ''publish'') = True
   \<and> fst (handle_message_error now h error m operation) = should_retry now m"
proof -
  have "should_retry 0 (text_message ''alice'' ''ops'' ''hello'')"
    by (simp add: should_retry_def is_expired_def text_message_def)
  then have "fst (handle_message_error 0 (new_error_handler None) validation_error
            (text_message ''alice'' ''ops'' ''hello'') ''publish'') = True"
    by (simp add: handle_message_error_result)
  moreover have "await (is_error_retryable (new_error_handler None) validation_error) = False"
    by (simp add: is_error_retryable_def classify_validation new_error_handler_def
        default_retry_config_def)
  moreover have "retry_count (text_message ''alice'' ''ops'' ''hello'')
        < max_retries (text_message ''alice'' ''ops'' ''hello'')"
    by (simp add: text_message_def)
  ultimately show ?thesis
    using classify_validation handle_message_error_result by blast
qed

subsection \<open>The retry delay\<close>



text \<open>
  The fixed strategy returns the base delay before the cap is applied: with a base
  delay of 100 and a maximum of 60 the delay is 100.
\<close>

lemma fixed_delay_exceeds_cap:
  "calculate_delay fixed_config t attempt = 100 \<and> max_delay fixed_config = 60"
  by (simp add: calculate_delay_def fixed_config_def default_retry_config_def)




subsection \<open>Exhausted retries\<close>

lemma record_error_fields [simp]:
  "retry_config (record_error h c) = retry_config h"
  "retry_history (record_error h c) = retry_history h"
  "error_contexts (record_error h c) = error_contexts h"
  "next_context (record_error h c) = next_context h"
  "handler_max_history_size (record_error h c) = handler_max_history_size h"
  by (simp_all add: record_error_def Let_def)











end
